theory Spec2Isabelle
  imports Main
begin

section \<open>The member filesystem provider of vscode-ibmi (QSysFs.ts)\<close>

text \<open>
  Strings are \<^typ>\<open>string\<close>, read as UTF-8 byte sequences; a \<^verbatim>\<open>Uint8Array\<close> is a
  byte sequence as well, so \<^verbatim>\<open>new Uint8Array(Buffer.from(s, `utf8`))\<close> is \<open>s\<close> itself.
  Every \<^verbatim>\<open>throw\<close> and every rejected promise is the \<open>Inl\<close> branch of a sum.
\<close>

subsection \<open>JavaScript strings\<close>

text \<open>\<^verbatim>\<open>s.split(c)\<close> for a one-character separator: the pieces between the separators,
  the empty ones included, so the empty string gives one empty piece.\<close>

fun split :: "char \<Rightarrow> string \<Rightarrow> string list" where
  "split c [] = [[]]"
| "split c (x # xs) =
     (if x = c then [] # split c xs
      else (case split c xs of
              [] \<Rightarrow> [[x]]
            | y # ys \<Rightarrow> (x # y) # ys))"

text \<open>\<^verbatim>\<open>s.startsWith(p)\<close>.\<close>

fun startsWith :: "string \<Rightarrow> string \<Rightarrow> bool" where
  "startsWith s [] = True"
| "startsWith [] (p # ps) = False"
| "startsWith (x # xs) (p # ps) = (x = p \<and> startsWith xs ps)"

subsection \<open>Node's \<^verbatim>\<open>querystring\<close> module\<close>

text \<open>
  The codec calls \<^verbatim>\<open>stringify\<close> and \<^verbatim>\<open>parse\<close> of Node's \<^verbatim>\<open>querystring\<close> with the default
  separators \<^verbatim>\<open>&\<close> and \<^verbatim>\<open>=\<close>. The module is not part of the repository; this is its
  documented behaviour on byte strings: percent-escaping of everything but the unreserved
  characters, \<^verbatim>\<open>+\<close> read as a space, at most 1000 pairs read, a repeated key collected
  into an array.
\<close>

datatype primitive = PString string | PBoolean bool | PUndefined

datatype qsvalue = QString string | QArray "string list"

definition hexdigit :: "nat \<Rightarrow> char" where
  "hexdigit n = (''0123456789ABCDEF'') ! (n mod 16)"

definition hexval :: "char \<Rightarrow> nat option" where
  "hexval c =
     (let n = of_char c :: nat in
      if 48 \<le> n \<and> n \<le> 57 then Some (n - 48)
      else if 65 \<le> n \<and> n \<le> 70 then Some (n - 55)
      else if 97 \<le> n \<and> n \<le> 102 then Some (n - 87)
      else None)"

definition unreserved :: "char \<Rightarrow> bool" where
  "unreserved c =
     (let n = of_char c :: nat in
      (48 \<le> n \<and> n \<le> 57) \<or> (65 \<le> n \<and> n \<le> 90) \<or> (97 \<le> n \<and> n \<le> 122)
      \<or> c \<in> set ''-_.!~*'()'')"

definition escape :: "string \<Rightarrow> string" where
  "escape s =
     concat (map (\<lambda>c. if unreserved c then [c]
                       else [CHR ''%'', hexdigit (of_char c div 16), hexdigit (of_char c mod 16)]) s)"

fun stringifyPrimitive :: "primitive \<Rightarrow> string" where
  "stringifyPrimitive (PString s) = s"
| "stringifyPrimitive (PBoolean b) = (if b then ''true'' else ''false'')"
| "stringifyPrimitive PUndefined = ''''"

fun join :: "string \<Rightarrow> string list \<Rightarrow> string" where
  "join sep [] = []"
| "join sep [x] = x"
| "join sep (x # y # ys) = x @ sep @ join sep (y # ys)"

text \<open>\<^verbatim>\<open>stringify(obj)\<close>: an object is the list of its own keys with their values, in
  insertion order; \<^verbatim>\<open>undefined\<close> (no object) gives the empty string.\<close>

definition stringify :: "(string \<times> primitive) list option \<Rightarrow> string" where
  "stringify obj =
     (case obj of
        None \<Rightarrow> ''''
      | Some fields \<Rightarrow>
          join ''&'' (map (\<lambda>(k, v). escape k @ ''='' @ escape (stringifyPrimitive v)) fields))"

fun unescape :: "string \<Rightarrow> string" where
  "unescape [] = []"
| "unescape [c] = [c]"
| "unescape [c, d] = [c, d]"
| "unescape (c # a # b # rest) =
     (if c = CHR ''%'' then
        (case (hexval a, hexval b) of
           (Some h, Some l) \<Rightarrow> char_of (16 * h + l) # unescape rest
         | _ \<Rightarrow> c # unescape (a # b # rest))
      else c # unescape (a # b # rest))"

definition decode :: "string \<Rightarrow> string" where
  "decode s = unescape (map (\<lambda>c. if c = CHR ''+'' then CHR '' '' else c) s)"

text \<open>One piece \<^verbatim>\<open>key=value\<close>, cut at its first \<^verbatim>\<open>=\<close>; a piece without \<^verbatim>\<open>=\<close> is a key
  with the empty value.\<close>

definition keyValue :: "string \<Rightarrow> string \<times> string" where
  "keyValue piece =
     (decode (takeWhile (\<lambda>c. c \<noteq> CHR ''='') piece),
      decode (drop 1 (dropWhile (\<lambda>c. c \<noteq> CHR ''='') piece)))"

definition addKeyValue :: "(string \<rightharpoonup> qsvalue) \<Rightarrow> string \<times> string \<Rightarrow> (string \<rightharpoonup> qsvalue)" where
  "addKeyValue obj kv =
     (case obj (fst kv) of
        None \<Rightarrow> obj(fst kv \<mapsto> QString (snd kv))
      | Some (QString cur) \<Rightarrow> obj(fst kv \<mapsto> QArray [cur, snd kv])
      | Some (QArray cur) \<Rightarrow> obj(fst kv \<mapsto> QArray (cur @ [snd kv])))"

text \<open>The key/value pairs read from a query string: its first 1000 pieces between
  \<^verbatim>\<open>&\<close>, the empty ones skipped.\<close>

definition pairs :: "string \<Rightarrow> (string \<times> string) list" where
  "pairs qs = map keyValue (filter (\<lambda>piece. piece \<noteq> []) (take 1000 (split CHR ''&'' qs)))"

definition parse :: "string \<Rightarrow> (string \<rightharpoonup> qsvalue)" where
  "parse qs = (if qs = [] then Map.empty else foldl addKeyValue Map.empty (pairs qs))"

subsection \<open>Resource identifiers and their options\<close>

text \<open>A \<^verbatim>\<open>vscode.Uri\<close> with its five components.\<close>

record Uri =
  scheme :: string
  authority :: string
  path :: string
  query :: string
  fragment :: string

text \<open>Modelled from the spec: the interface \<^verbatim>\<open>QsysFsOptions\<close> of \<^verbatim>\<open>typings\<close> is not among
  the sources; the spec gives the options record as \<^verbatim>\<open>{readonly: boolean}\<close>.\<close>

record QsysFsOptions =
  readonly :: bool

text \<open>The object that \<^verbatim>\<open>options as ParsedUrlQueryInput\<close> hands to \<^verbatim>\<open>stringify\<close>.\<close>

definition asParsedUrlQueryInput :: "QsysFsOptions option \<Rightarrow> (string \<times> primitive) list option" where
  "asParsedUrlQueryInput options =
     map_option (\<lambda>opts. [(''readonly'', PBoolean (readonly opts))]) options"

text \<open>\<^verbatim>\<open>getUriFromPath\<close>. \<^verbatim>\<open>vscode.Uri.parse\<close> is the editor's and is taken as the parameter
  \<open>Uri_parse\<close>; \<^verbatim>\<open>with\<close> replaces the components it is given.\<close>

definition getUriFromPath :: "(string \<Rightarrow> Uri) \<Rightarrow> string \<Rightarrow> QsysFsOptions option \<Rightarrow> Uri" where
  "getUriFromPath Uri_parse p options =
     (let q = stringify (asParsedUrlQueryInput options) in
      if startsWith p ''/'' then
        (Uri_parse p)\<lparr>scheme := ''streamfile'', path := p, query := q\<rparr>
      else
        (Uri_parse p)\<lparr>scheme := ''member'', path := ''/'' @ p, query := q\<rparr>)"

definition parseFSOptions :: "Uri \<Rightarrow> QsysFsOptions" where
  "parseFSOptions uri =
     (let parameters = parse (query uri) in
      \<lparr>readonly = (parameters ''readonly'' = Some (QString ''true''))\<rparr>)"

subsection \<open>Metadata and the stat cache\<close>

datatype FileType = Unknown | File | Directory | SymbolicLink

datatype FilePermission = Readonly

text \<open>A \<^verbatim>\<open>vscode.FileStat\<close>. The numbers are integers here: the conversions that produce
  them (\<^verbatim>\<open>Tools.parseAttrDate\<close>, \<^verbatim>\<open>Number\<close>) are parameters of the model.\<close>

record FileStat =
  ctime :: int
  mtime :: int
  size' :: int
  type :: FileType
  permissions :: "FilePermission option"

text \<open>What \<^verbatim>\<open>statCache.clear\<close> is given: a \<^verbatim>\<open>vscode.Uri\<close> or a path string.\<close>

datatype key = KUri Uri | KPath string

fun toPath :: "key \<Rightarrow> string" where
  "toPath (KUri uri) = path uri"
| "toPath (KPath p) = p"

text \<open>Modelled from the spec: the class \<^verbatim>\<open>FileStatCache\<close> (\<^verbatim>\<open>filesystems/fileStatCache\<close>) is
  not among the sources. The spec: a mapping from canonical path to cached metadata or a
  "confirmed absent" marker; \<^verbatim>\<open>get(path)\<close> gives the metadata, the marker, or not-found;
  \<^verbatim>\<open>set(path, Metadata | null)\<close> stores, \<^verbatim>\<open>null\<close> being the marker; \<^verbatim>\<open>clear(path?)\<close> clears
  one entry or, if no path is given, all entries. Here \<open>None\<close> is not-found
  (\<^verbatim>\<open>undefined\<close>), \<open>Some None\<close> is the marker (\<^verbatim>\<open>null\<close>).\<close>

type_synonym FileStatCache = "string \<rightharpoonup> FileStat option"

definition FileStatCache_get :: "FileStatCache \<Rightarrow> string \<Rightarrow> FileStat option option" where
  "FileStatCache_get cache p = cache p"

definition FileStatCache_set :: "FileStatCache \<Rightarrow> string \<Rightarrow> FileStat option \<Rightarrow> FileStatCache" where
  "FileStatCache_set cache p st = cache(p \<mapsto> st)"

definition FileStatCache_clear :: "FileStatCache \<Rightarrow> key option \<Rightarrow> FileStatCache" where
  "FileStatCache_clear cache k =
     (case k of
        None \<Rightarrow> Map.empty
      | Some uri \<Rightarrow> cache(toPath uri := None))"

subsection \<open>The session, the gateway and the editor\<close>

datatype error = FileNotFound Uri | Error string

text \<open>The fields of a member that the provider reads (\<^verbatim>\<open>IBMiMember\<close>, and the result of
  \<^verbatim>\<open>parserMemberPath\<close>).\<close>

record IBMiMember =
  asp :: "string option"
  library :: string
  file' :: string
  name :: string
  extension :: string

text \<open>The fields of the connection's configuration that the provider reads.\<close>

record Config =
  readOnlyMode :: bool
  enableSourceDates :: bool
  sourceDateMode :: string

record CcsidDetail =
  invalid :: bool

text \<open>The connection (\<^verbatim>\<open>instance.getConnection()\<close>) and the content API
  (\<^verbatim>\<open>instance.getContent()\<close>) are external: each method is a field giving its result,
  \<open>Inl\<close> when it throws.\<close>

record Connection =
  config :: "Config option"
  sqlRunnerAvailable :: bool
  getEncoding :: CcsidDetail
  parserMemberPath :: "string \<Rightarrow> error + IBMiMember"

type_synonym QsysPath = string

record Content =
  getAttributes :: "QsysPath \<Rightarrow> string list \<Rightarrow> error + (string \<rightharpoonup> string) option"
  downloadMemberContent ::
    "string option \<Rightarrow> string \<Rightarrow> string \<Rightarrow> string \<Rightarrow> error + string option"
  uploadMemberContent ::
    "string option \<Rightarrow> string \<Rightarrow> string \<Rightarrow> string \<Rightarrow> string \<Rightarrow> error + unit"

text \<open>The process-wide \<^verbatim>\<open>instance\<close>.\<close>

record Instance =
  getConnection :: "Connection option"
  getContent :: "Content option"
  getConfig :: "Config option"

text \<open>What the provider does to the outside: gateway calls, editor commands, notices,
  console output, in the order they happen.\<close>

datatype effect =
    GetAttributes QsysPath "string list"
  | DownloadMemberContent "string option" string string string
  | DownloadMemberContentWithDates "string option" string string string
  | UploadMemberContent "string option" string string string string
  | UploadMemberContentWithDates "string option" string string string string
  | ExecuteCommand string
  | ShowWarningMessage string
  | ShowErrorMessage string
  | ConsoleLog Uri Uri bool

text \<open>The events the constructor subscribes to.\<close>

datatype event =
    Connected
  | Disconnected
  | ConfigurationChange
  | DidCloseTextDocument Uri
  | ClearQSYSStats "key option"

text \<open>Modelled from the spec: the class \<^verbatim>\<open>SourceDateHandler\<close> is not among the sources. The
  spec gives its state as \<^verbatim>\<open>{enabled: bool, mode: enum}\<close>; \<^verbatim>\<open>setEnabled\<close> and
  \<^verbatim>\<open>changeSourceDateMode\<close> set the two.\<close>

record SourceDateHandler =
  enabled :: bool
  mode :: string

definition setEnabled :: "SourceDateHandler \<Rightarrow> bool \<Rightarrow> SourceDateHandler" where
  "setEnabled h b = h\<lparr>enabled := b\<rparr>"

definition changeSourceDateMode :: "SourceDateHandler \<Rightarrow> string \<Rightarrow> SourceDateHandler" where
  "changeSourceDateMode h m = h\<lparr>mode := m\<rparr>"

text \<open>Functions of the editor, of \<^verbatim>\<open>Tools\<close> and of \<^verbatim>\<open>ExtendedIBMiContent\<close> that are not
  among the sources are parameters. The command \<^verbatim>\<open>code-for-ibmi.connectToPrevious\<close> gives,
  from the instance it finds, the instance it leaves and the events it fired, or throws.\<close>

record Env =
  Uri_toString :: "Uri \<Rightarrow> string"
  Uint8Array_toString :: "string \<Rightarrow> string"
  Number :: "string \<Rightarrow> int"
  parseQSysPath :: "string \<Rightarrow> QsysPath"
  parseAttrDate :: "string \<Rightarrow> int"
  downloadMemberContentWithDates ::
    "Instance \<Rightarrow> string option \<Rightarrow> string \<Rightarrow> string \<Rightarrow> string \<Rightarrow> error + string option"
  uploadMemberContentWithDates ::
    "Instance \<Rightarrow> string option \<Rightarrow> string \<Rightarrow> string \<Rightarrow> string \<Rightarrow> string \<Rightarrow> error + unit"
  connectToPrevious :: "Instance \<Rightarrow> error + Instance \<times> event list"

subsection \<open>The provider\<close>

text \<open>The provider's fields, the global \<^verbatim>\<open>instance\<close> it reads, and the effects so far.\<close>

record World =
  inst :: Instance
  statCache :: FileStatCache
  sourceDateHandler :: SourceDateHandler
  extendedMemberSupport :: bool
  trace :: "effect list"

text \<open>\<^verbatim>\<open>getMemberUri\<close>: an absent or empty \<^verbatim>\<open>asp\<close> gives no prefix.\<close>

definition getMemberUri :: "(string \<Rightarrow> Uri) \<Rightarrow> IBMiMember \<Rightarrow> QsysFsOptions option \<Rightarrow> Uri" where
  "getMemberUri Uri_parse member options =
     getUriFromPath Uri_parse
       ((case asp member of
           None \<Rightarrow> ''''
         | Some a \<Rightarrow> if a = '''' then '''' else a @ ''/'')
        @ library member @ ''/'' @ file' member @ ''/'' @ name member @ ''.'' @ extension member)
       options"

text \<open>\<^verbatim>\<open>getFilePermission\<close>: \<^verbatim>\<open>instance.getConfig()?.readOnlyMode || fsOptions.readonly\<close>.\<close>

definition getFilePermission :: "Instance \<Rightarrow> Uri \<Rightarrow> FilePermission option" where
  "getFilePermission i uri =
     (let fsOptions = parseFSOptions uri in
      if (case getConfig i of None \<Rightarrow> False | Some c \<Rightarrow> readOnlyMode c) \<or> readonly fsOptions
      then Some Readonly
      else None)"

definition perform :: "effect \<Rightarrow> World \<Rightarrow> World" where
  "perform e w = w\<lparr>trace := trace w @ [e]\<rparr>"

definition sqlMissingMessage :: string where
  "sqlMissingMessage =
     ''Source date support is enabled, but the remote system does not support SQL. Source date support will be disabled.''"

definition ccsidMessage :: string where
  "ccsidMessage =
     ''Source date support is enabled, but CCSID is 65535. If you encounter problems with source date support, please disable it in the settings.''"

definition updateMemberSupport :: "World \<Rightarrow> World" where
  "updateMemberSupport w =
     (let w1 = w\<lparr>extendedMemberSupport := False\<rparr>;
          w2 =
            (case getConnection (inst w1) of
               None \<Rightarrow> w1
             | Some connection \<Rightarrow>
                 (case config connection of
                    None \<Rightarrow> w1
                  | Some cfg \<Rightarrow>
                      if enableSourceDates cfg then
                        if sqlRunnerAvailable connection then
                          (let w3 = w1\<lparr>extendedMemberSupport := True,
                                         sourceDateHandler :=
                                           changeSourceDateMode (sourceDateHandler w1) (sourceDateMode cfg)\<rparr>
                           in if invalid (getEncoding connection)
                              then perform (ShowWarningMessage ccsidMessage) w3
                              else w3)
                        else perform (ShowErrorMessage sqlMissingMessage) w1
                      else w1))
      in w2\<lparr>sourceDateHandler := setEnabled (sourceDateHandler w2) (extendedMemberSupport w2)\<rparr>)"

text \<open>The subscriptions of the constructor.\<close>

fun handle :: "event \<Rightarrow> World \<Rightarrow> World" where
  "handle Connected w = updateMemberSupport w"
| "handle Disconnected w =
     (let w1 = updateMemberSupport w
      in w1\<lparr>statCache := FileStatCache_clear (statCache w1) None\<rparr>)"
| "handle ConfigurationChange w = updateMemberSupport w"
| "handle (DidCloseTextDocument uri) w =
     w\<lparr>statCache := FileStatCache_clear (statCache w) (Some (KUri uri))\<rparr>"
| "handle (ClearQSYSStats uri) w =
     w\<lparr>statCache := FileStatCache_clear (statCache w) uri\<rparr>"

definition fire :: "event list \<Rightarrow> World \<Rightarrow> World" where
  "fire events w = foldl (\<lambda>w' e. handle e w') w events"

text \<open>The provider as the constructor leaves it, for the instance and the handler state
  it starts with.\<close>

definition construct :: "Instance \<Rightarrow> SourceDateHandler \<Rightarrow> World" where
  "construct i h =
     \<lparr>inst = i, statCache = Map.empty, sourceDateHandler = h,
      extendedMemberSupport = False, trace = []\<rparr>"

text \<open>\<^verbatim>\<open>String(v)\<close> of an attribute that may be missing.\<close>

definition String :: "string option \<Rightarrow> string" where
  "String v = (case v of None \<Rightarrow> ''undefined'' | Some s \<Rightarrow> s)"

definition stat :: "Env \<Rightarrow> Uri \<Rightarrow> World \<Rightarrow> (error + FileStat) \<times> World" where
  "stat T uri w =
     (let p = path uri;
          ty = (if length (split CHR ''/'' p) > 3 then File else Directory)
      in case FileStatCache_get (statCache w) p of
           None \<Rightarrow>
             (case getContent (inst w) of
                Some content \<Rightarrow>
                  (let fields = [''CREATE_TIME'', ''MODIFY_TIME'', ''DATA_SIZE''];
                       w1 = perform (GetAttributes (parseQSysPath T p) fields) w
                   in case getAttributes content (parseQSysPath T p) fields of
                        Inl e \<Rightarrow> (Inl e, w1)
                      | Inr (Some attributes) \<Rightarrow>
                          (let currentStat =
                                 \<lparr>ctime = parseAttrDate T (String (attributes ''CREATE_TIME'')),
                                  mtime = parseAttrDate T (String (attributes ''MODIFY_TIME'')),
                                  size' = Number T (String (attributes ''DATA_SIZE'')),
                                  type = ty,
                                  permissions = getFilePermission (inst w) uri\<rparr>
                           in (Inr currentStat,
                               w1\<lparr>statCache := FileStatCache_set (statCache w1) p (Some currentStat)\<rparr>))
                      | Inr None \<Rightarrow>
                          (Inl (FileNotFound uri),
                           w1\<lparr>statCache := FileStatCache_set (statCache w1) p None\<rparr>))
              | None \<Rightarrow>
                  (let currentStat =
                         \<lparr>ctime = 0, mtime = 0, size' = 0, type = ty,
                          permissions = getFilePermission (inst w) uri\<rparr>
                   in (Inr currentStat,
                       w\<lparr>statCache := FileStatCache_set (statCache w) p (Some currentStat)\<rparr>)))
         | Some None \<Rightarrow> (Inl (FileNotFound uri), w)
         | Some (Some currentStat) \<Rightarrow> (Inr currentStat, w))"

definition notConnected :: error where
  "notConnected = Error ''Not connected to IBM i''"

definition couldntRead :: "Env \<Rightarrow> Uri \<Rightarrow> error" where
  "couldntRead T uri = Error (''Couldn't read '' @ Uri_toString T uri @ ''; check IBM i connection.'')"

function readFile :: "Env \<Rightarrow> Uri \<Rightarrow> bool \<Rightarrow> World \<Rightarrow> (error + string) \<times> World" where
  "readFile T uri retrying w =
     (case (getConnection (inst w), getContent (inst w)) of
        (Some connection, Some contentApi) \<Rightarrow>
          (case parserMemberPath connection (path uri) of
             Inl e \<Rightarrow> (Inl e, w)
           | Inr m \<Rightarrow>
               (let (memberContent, w1) =
                      (if extendedMemberSupport w
                       then (downloadMemberContentWithDates T (inst w)
                               (asp m) (library m) (file' m) (name m),
                             perform (DownloadMemberContentWithDates
                               (asp m) (library m) (file' m) (name m)) w)
                       else (downloadMemberContent contentApi
                               (asp m) (library m) (file' m) (name m),
                             perform (DownloadMemberContent
                               (asp m) (library m) (file' m) (name m)) w))
                in case memberContent of
                     Inl e \<Rightarrow> (Inl e, w1)
                   | Inr (Some text) \<Rightarrow> (Inr text, w1)
                   | Inr None \<Rightarrow> (Inl (couldntRead T uri), w1)))
      | _ \<Rightarrow>
          if retrying then (Inl notConnected, w)
          else
            (let w1 = perform (ExecuteCommand ''code-for-ibmi.connectToPrevious'') w
             in case connectToPrevious T (inst w1) of
                  Inl e \<Rightarrow> (Inl e, w1)
                | Inr (i, events) \<Rightarrow> readFile T uri True (fire events (w1\<lparr>inst := i\<rparr>))))"
  by pat_completeness auto
termination
  by (relation "measure (\<lambda>(T, uri, retrying, w). if retrying then 0 else 1)") auto

declare readFile.simps [simp del]

record RenameOptions =
  overwrite :: bool

record WriteFileOptions = RenameOptions +
  create :: bool

definition writeFile ::
  "Env \<Rightarrow> Uri \<Rightarrow> string \<Rightarrow> WriteFileOptions \<Rightarrow> World \<Rightarrow> (error + unit) \<times> World" where
  "writeFile T uri content options w =
     (let w0 = w\<lparr>statCache := FileStatCache_clear (statCache w) (Some (KUri uri))\<rparr>
      in case (getConnection (inst w0), getContent (inst w0)) of
           (Some connection, Some contentApi) \<Rightarrow>
             (case parserMemberPath connection (path uri) of
                Inl e \<Rightarrow> (Inl e, w0)
              | Inr m \<Rightarrow>
                  if extendedMemberSupport w0
                  then (uploadMemberContentWithDates T (inst w0)
                          (asp m) (library m) (file' m) (name m) (Uint8Array_toString T content),
                        perform (UploadMemberContentWithDates
                          (asp m) (library m) (file' m) (name m) (Uint8Array_toString T content)) w0)
                  else (uploadMemberContent contentApi
                          (asp m) (library m) (file' m) (name m) content,
                        perform (UploadMemberContent
                          (asp m) (library m) (file' m) (name m) content) w0))
         | _ \<Rightarrow> (Inl notConnected, w0))"

definition rename :: "Uri \<Rightarrow> Uri \<Rightarrow> RenameOptions \<Rightarrow> World \<Rightarrow> (error + unit) \<times> World" where
  "rename oldUri newUri options w =
     (let w1 = perform (ConsoleLog oldUri newUri (overwrite options)) w;
          w2 = w1\<lparr>statCache := FileStatCache_clear (statCache w1) (Some (KPath (path oldUri)))\<rparr>;
          w3 = w2\<lparr>statCache := FileStatCache_clear (statCache w2) (Some (KPath (path newUri)))\<rparr>
      in (Inr (), w3))"

definition notImplemented :: error where
  "notImplemented = Error ''Method not implemented.''"

definition readDirectory :: "Uri \<Rightarrow> World \<Rightarrow> (error + (string \<times> FileType) list) \<times> World" where
  "readDirectory uri w = (Inl notImplemented, w)"

definition createDirectory :: "Uri \<Rightarrow> World \<Rightarrow> (error + unit) \<times> World" where
  "createDirectory uri w = (Inl notImplemented, w)"

definition delete :: "Uri \<Rightarrow> World \<Rightarrow> (error + unit) \<times> World" where
  "delete uri w =
     (Inl notImplemented,
      w\<lparr>statCache := FileStatCache_clear (statCache w) (Some (KPath (path uri)))\<rparr>)"

text \<open>The worlds the provider can be in: built by the constructor, then changed by its
  own operations, by the events it subscribes to, and by the owner of the session.\<close>

inductive reachable :: "Env \<Rightarrow> World \<Rightarrow> bool" for T :: Env where
  constructed: "reachable T (construct i h)"
| session: "reachable T w \<Longrightarrow> reachable T (w\<lparr>inst := i\<rparr>)"
| handled: "reachable T w \<Longrightarrow> reachable T (handle e w)"
| stat: "reachable T w \<Longrightarrow> reachable T (snd (stat T uri w))"
| readFile: "reachable T w \<Longrightarrow> reachable T (snd (readFile T uri retrying w))"
| writeFile: "reachable T w \<Longrightarrow> reachable T (snd (writeFile T uri content options w))"
| rename: "reachable T w \<Longrightarrow> reachable T (snd (rename oldUri newUri opts w))"
| delete: "reachable T w \<Longrightarrow> reachable T (snd (delete uri w))"

subsection \<open>Notions the properties are stated with\<close>

text \<open>The value that \<^verbatim>\<open>parse\<close> leaves under a key once it has seen the given values for
  it, in order.\<close>

fun collect :: "qsvalue option \<Rightarrow> string list \<Rightarrow> qsvalue option" where
  "collect cur [] = cur"
| "collect None (v # vs) = collect (Some (QString v)) vs"
| "collect (Some (QString c)) (v # vs) = collect (Some (QArray [c, v])) vs"
| "collect (Some (QArray cs)) (v # vs) = collect (Some (QArray (cs @ [v]))) vs"

text \<open>The values a query string gives a key, in order of appearance.\<close>

definition valuesOf :: "string \<Rightarrow> string \<Rightarrow> string list" where
  "valuesOf k qs = map snd (filter (\<lambda>kv. fst kv = k) (pairs qs))"

text \<open>Every cached metadata carries the type that the depth of its path gives.\<close>

definition typed :: "World \<Rightarrow> bool" where
  "typed w =
     (\<forall>p st. statCache w p = Some (Some st) \<longrightarrow>
        type st = (if length (split CHR ''/'' p) > 3 then File else Directory))"

text \<open>A live session, as \<^verbatim>\<open>readFile\<close> and \<^verbatim>\<open>writeFile\<close> test it:
  \<^verbatim>\<open>connection && contentApi\<close>.\<close>

definition live :: "Instance \<Rightarrow> bool" where
  "live i = (getConnection i \<noteq> None \<and> getContent i \<noteq> None)"



fun isNotice :: "effect \<Rightarrow> bool" where
  "isNotice (ShowWarningMessage m) = True"
| "isNotice (ShowErrorMessage m) = True"
| "isNotice e = False"

definition notices :: "effect list \<Rightarrow> effect list" where
  "notices es = filter isNotice es"

fun isWarning :: "effect \<Rightarrow> bool" where
  "isWarning (ShowWarningMessage m) = True"
| "isWarning e = False"

definition warnings :: "effect list \<Rightarrow> effect list" where
  "warnings es = filter isWarning es"

fun isWithDates :: "effect \<Rightarrow> bool" where
  "isWithDates (DownloadMemberContentWithDates a l f n) = True"
| "isWithDates (UploadMemberContentWithDates a l f n c) = True"
| "isWithDates e = False"

definition withDates :: "effect list \<Rightarrow> effect list" where
  "withDates es = filter isWithDates es"

text \<open>The attributes that \<^verbatim>\<open>stat\<close> asks the gateway for.\<close>

definition statFields :: "string list" where
  "statFields = [''CREATE_TIME'', ''MODIFY_TIME'', ''DATA_SIZE'']"

subsection \<open>Concrete inputs\<close>

definition exampleEnv :: Env where
  "exampleEnv =
     \<lparr>Uri_toString = (\<lambda>u. scheme u @ '':'' @ path u),
      Uint8Array_toString = (\<lambda>b. b),
      Number = (\<lambda>s. 0),
      parseQSysPath = (\<lambda>p. p),
      parseAttrDate = (\<lambda>s. 0),
      downloadMemberContentWithDates = (\<lambda>i a l f n. Inr None),
      uploadMemberContentWithDates = (\<lambda>i a l f n c. Inr ()),
      connectToPrevious = (\<lambda>i. Inr (i, []))\<rparr>"

definition noSession :: Instance where
  "noSession = \<lparr>getConnection = None, getContent = None, getConfig = None\<rparr>"

definition exampleMember :: IBMiMember where
  "exampleMember =
     \<lparr>asp = None, library = ''MYLIB'', file' = ''MYFILE'', name = ''MEMBER1'',
      extension = ''RPGLE''\<rparr>"

definition exampleConfig :: Config where
  "exampleConfig = \<lparr>readOnlyMode = False, enableSourceDates = True, sourceDateMode = ''diff''\<rparr>"

text \<open>A connection whose configuration asks for source dates and that cannot run SQL.\<close>

definition exampleConnection :: Connection where
  "exampleConnection =
     \<lparr>config = Some exampleConfig, sqlRunnerAvailable = False,
      getEncoding = \<lparr>invalid = False\<rparr>,
      parserMemberPath = (\<lambda>p. Inr exampleMember)\<rparr>"

text \<open>A gateway that holds nothing.\<close>

definition emptyGateway :: Content where
  "emptyGateway =
     \<lparr>getAttributes = (\<lambda>p fields. Inr None),
      downloadMemberContent = (\<lambda>a l f n. Inr None),
      uploadMemberContent = (\<lambda>a l f n c. Inr ())\<rparr>"

definition exampleSession :: Instance where
  "exampleSession =
     \<lparr>getConnection = Some exampleConnection, getContent = Some emptyGateway,
      getConfig = Some exampleConfig\<rparr>"

definition exampleHandler :: SourceDateHandler where
  "exampleHandler = \<lparr>enabled = False, mode = ''diff''\<rparr>"

definition memberUri :: "string \<Rightarrow> Uri" where
  "memberUri p = \<lparr>scheme = ''member'', authority = '''', path = p, query = '''', fragment = ''''\<rparr>"

definition zeroStat :: "FileType \<Rightarrow> FileStat" where
  "zeroStat ty = \<lparr>ctime = 0, mtime = 0, size' = 0, type = ty, permissions = None\<rparr>"

text \<open>A gateway that holds every object asked for, with the same attributes, and a
  session on it; conversions that give a number to see.\<close>

definition exampleAttributes :: "string \<rightharpoonup> string" where
  "exampleAttributes =
     [''CREATE_TIME'' \<mapsto> ''20240101'', ''MODIFY_TIME'' \<mapsto> ''20240102'', ''DATA_SIZE'' \<mapsto> ''10'']"

definition holdingGateway :: Content where
  "holdingGateway =
     \<lparr>getAttributes = (\<lambda>p fields. Inr (Some exampleAttributes)),
      downloadMemberContent = (\<lambda>a l f n. Inr (Some ''XXXXXXXXXX'')),
      uploadMemberContent = (\<lambda>a l f n c. Inr ())\<rparr>"

definition holdingSession :: Instance where
  "holdingSession =
     \<lparr>getConnection = Some exampleConnection, getContent = Some holdingGateway,
      getConfig = Some exampleConfig\<rparr>"

definition countingEnv :: Env where
  "countingEnv =
     exampleEnv\<lparr>Number := (\<lambda>s. int (length s)), parseAttrDate := (\<lambda>s. int (length s))\<rparr>"

section \<open>Proofs\<close>

subsection \<open>The query string\<close>

lemma addKeyValue_at:
  "addKeyValue obj kv k = (if fst kv = k then collect (obj k) [snd kv] else obj k)"
  by (simp add: addKeyValue_def split: option.splits qsvalue.splits)

lemma foldl_addKeyValue:
  "foldl addKeyValue obj kvs k = collect (obj k) (map snd (filter (\<lambda>kv. fst kv = k) kvs))"
proof (induction kvs arbitrary: obj)
  case Nil
  show ?case by simp
next
  case (Cons kv kvs)
  have "foldl addKeyValue obj (kv # kvs) k = foldl addKeyValue (addKeyValue obj kv) kvs k"
    by simp
  also have "\<dots> = collect (addKeyValue obj kv k) (map snd (filter (\<lambda>kv. fst kv = k) kvs))"
    by (rule Cons.IH)
  also have "\<dots> = collect (obj k) (map snd (filter (\<lambda>kv. fst kv = k) (kv # kvs)))"
    by (cases "obj k" rule: option.exhaust; cases "the (obj k)") (simp_all add: addKeyValue_at)
  finally show ?case .
qed

lemma collect_QArray: "collect (Some (QArray cs)) vs = Some (QArray (cs @ vs))"
  by (induction vs arbitrary: cs) auto

lemma collect_None: "collect None vs = Some (QString v) \<longleftrightarrow> vs = [v]"
proof (cases vs)
  case Nil then show ?thesis by simp
next
  case (Cons a as)
  then show ?thesis by (cases as) (auto simp: collect_QArray)
qed

lemma pairs_Nil: "pairs [] = []" by (simp add: pairs_def)

lemma parse_readonly: "parse qs k = Some (QString v) \<longleftrightarrow> valuesOf k qs = [v]"
  by (cases "qs = []") (simp_all add: parse_def valuesOf_def foldl_addKeyValue collect_None pairs_Nil)

lemma clear_typed: "typed w \<Longrightarrow> typed (w\<lparr>statCache := FileStatCache_clear (statCache w) k\<rparr>)"
  by (auto simp: typed_def FileStatCache_clear_def split: option.splits if_splits)

lemma ums_cache: "statCache (updateMemberSupport w) = statCache w"
  by (simp add: updateMemberSupport_def Let_def perform_def split: option.splits)

lemma typed_ums: "typed (updateMemberSupport w) = typed w"
  by (simp add: typed_def ums_cache)

lemma typed_perform: "typed (perform e w) = typed w"
  by (simp add: typed_def perform_def)

lemma typed_inst: "typed (w\<lparr>inst := i\<rparr>) = typed w"
  by (simp add: typed_def)

lemma handle_typed: "typed w \<Longrightarrow> typed (handle e w)"
proof (cases e)
  case Disconnected
  assume "typed w"
  then have "typed (updateMemberSupport w)" by (simp add: typed_ums)
  then have "typed ((updateMemberSupport w)\<lparr>statCache := FileStatCache_clear (statCache (updateMemberSupport w)) None\<rparr>)"
    by (rule clear_typed)
  then show ?thesis using Disconnected by (simp add: Let_def)
next
  case Connected
  assume "typed w" then show ?thesis using Connected by (simp add: typed_ums)
next
  case ConfigurationChange
  assume "typed w" then show ?thesis using ConfigurationChange by (simp add: typed_ums)
next
  case (DidCloseTextDocument u)
  assume "typed w" then show ?thesis using DidCloseTextDocument by (simp add: clear_typed)
next
  case (ClearQSYSStats k)
  assume "typed w" then show ?thesis using ClearQSYSStats by (simp add: clear_typed)
qed

lemma fire_typed: "typed w \<Longrightarrow> typed (fire es w)"
  unfolding fire_def by (induction es arbitrary: w) (simp_all add: handle_typed)

lemma stat_typed: "typed w \<Longrightarrow> typed (snd (stat T uri w))"
  by (auto simp: stat_def typed_def Let_def FileStatCache_get_def FileStatCache_set_def perform_def split: option.splits sum.splits)

lemma readFile_retry_cache: "statCache (snd (readFile T uri True w)) = statCache w"
  by (subst readFile.simps) (simp add: Let_def perform_def split: option.splits sum.splits prod.splits)

lemma readFile_typed: "typed w \<Longrightarrow> typed (snd (readFile T uri r w))"
proof (cases r)
  case True
  assume "typed w"
  then show ?thesis using True by (simp add: typed_def readFile_retry_cache)
next
  case False
  assume tw: "typed w"
  let ?w1 = "perform (ExecuteCommand ''code-for-ibmi.connectToPrevious'') w"
  have t2: "\<And>i es. typed (fire es (?w1\<lparr>inst := i\<rparr>))"
    using tw by (intro fire_typed) (simp add: typed_inst typed_perform)
  have t3: "\<And>i es. typed (snd (readFile T uri True (fire es (?w1\<lparr>inst := i\<rparr>))))"
    using t2 by (simp add: typed_def readFile_retry_cache)
  show ?thesis
    using False tw t3
    by (subst readFile.simps) (simp add: Let_def typed_perform split: option.splits sum.splits prod.splits)
qed

lemma writeFile_typed: "typed w \<Longrightarrow> typed (snd (writeFile T uri c opts w))"
  using clear_typed[of w "Some (KUri uri)"]
  by (simp add: writeFile_def Let_def typed_perform split: option.splits sum.splits prod.splits)

lemma rename_typed: "typed w \<Longrightarrow> typed (snd (rename a b opts w))"
  by (simp add: rename_def Let_def typed_def perform_def FileStatCache_clear_def)

lemma delete_typed: "typed w \<Longrightarrow> typed (snd (delete u w))"
  by (simp add: delete_def clear_typed)

lemma reachable_typed: "reachable T w \<Longrightarrow> typed w"
proof (induction rule: reachable.induct)
  case (constructed i h)
  show ?case by (simp add: typed_def construct_def)
qed (simp_all add: typed_inst handle_typed stat_typed readFile_typed writeFile_typed rename_typed delete_typed)

subsection \<open>The code of options in the identifier\<close>



subsection \<open>The type of a stat\<close>

lemma stat_answer_typed:
  assumes "typed w" and "fst (stat T uri w) = Inr st"
  shows "type st = (if length (split CHR ''/'' (path uri)) > 3 then File else Directory)"
proof (cases "statCache w (path uri)")
  case None
  with assms(2) show ?thesis
    by (auto simp: stat_def Let_def FileStatCache_get_def split: option.splits sum.splits)
next
  case (Some entry)
  with assms(2) have "entry = Some st"
    by (cases entry) (simp_all add: stat_def Let_def FileStatCache_get_def)
  with Some assms(1) show ?thesis by (simp add: typed_def)
qed

lemma stat_placeholder:
  assumes "statCache w (path uri) = None" and "getContent (inst w) = None"
  shows "fst (stat T uri w) =
           Inr \<lparr>ctime = 0, mtime = 0, size' = 0,
                type = (if length (split CHR ''/'' (path uri)) > 3 then File else Directory),
                permissions = getFilePermission (inst w) uri\<rparr>"
  using assms by (simp add: stat_def Let_def FileStatCache_get_def)

lemma stat_attributes:
  assumes "statCache w (path uri) = None" and "getContent (inst w) = Some content"
    and "getAttributes content (parseQSysPath T (path uri)) statFields = Inr (Some attributes)"
  shows "fst (stat T uri w) =
           Inr \<lparr>ctime = parseAttrDate T (String (attributes ''CREATE_TIME'')),
                mtime = parseAttrDate T (String (attributes ''MODIFY_TIME'')),
                size' = Number T (String (attributes ''DATA_SIZE'')),
                type = (if length (split CHR ''/'' (path uri)) > 3 then File else Directory),
                permissions = getFilePermission (inst w) uri\<rparr>"
  using assms by (simp add: stat_def Let_def FileStatCache_get_def statFields_def)

lemma stat_absent:
  assumes "statCache w (path uri) = None" and "getContent (inst w) = Some content"
    and "getAttributes content (parseQSysPath T (path uri)) statFields = Inr None"
  shows "fst (stat T uri w) = Inl (FileNotFound uri)"
  using assms by (simp add: stat_def Let_def FileStatCache_get_def statFields_def)

text \<open>
  C1. The type that \<^verbatim>\<open>stat\<close> gives is fixed by the depth of the path alone: a file when
  the path splits at \<^verbatim>\<open>/\<close> into more than 3 pieces, a directory otherwise; the pieces are
  those of \<^verbatim>\<open>path.split(`/`)\<close>, the empty one before the leading separator included, so
  \<^verbatim>\<open>/MYLIB/MYFILE\<close> has 3 and \<^verbatim>\<open>/MYLIB/MYFILE/MEMBER1.RPGLE\<close> has 4. In every world the
  provider can reach:
  \<^item> whatever session is installed and whatever its gateway holds, every metadata that
    \<^verbatim>\<open>stat\<close> returns has that type;
  \<^item> without a content API, on a cache miss, \<^verbatim>\<open>stat\<close> does return metadata, of that type,
    whether or not the object exists remotely;
  \<^item> with a gateway that reports attributes, on a cache miss, \<^verbatim>\<open>stat\<close> returns metadata
    of that type;
  \<^item> metadata found in the cache is returned and has that type;
  \<^item> the one case without a type is the failure: with a gateway that reports nothing,
    on a cache miss, \<^verbatim>\<open>stat\<close> fails with \<open>FileNotFound\<close> at every depth and returns no
    metadata.
  So for \<^verbatim>\<open>/MYLIB/MYFILE\<close> every answer is a directory and for
  \<^verbatim>\<open>/MYLIB/MYFILE/MEMBER1.RPGLE\<close> every answer is a file.
\<close>

theorem stat_type_by_depth:
  assumes "reachable T w"
  shows "(\<forall>i st. fst (stat T uri (w\<lparr>inst := i\<rparr>)) = Inr st \<longrightarrow>
            type st = (if length (split CHR ''/'' (path uri)) > 3 then File else Directory))
         \<and> (\<forall>st. fst (stat T uri w) = Inr st \<longrightarrow>
            type st = (if length (split CHR ''/'' (path uri)) > 3 then File else Directory))
         \<and> (statCache w (path uri) = None \<and> getContent (inst w) = None \<longrightarrow>
            (\<exists>st. fst (stat T uri w) = Inr st
               \<and> type st = (if length (split CHR ''/'' (path uri)) > 3 then File else Directory)))
         \<and> (\<forall>content attributes.
              statCache w (path uri) = None \<and> getContent (inst w) = Some content
              \<and> getAttributes content (parseQSysPath T (path uri)) statFields = Inr (Some attributes)
              \<longrightarrow>
            (\<exists>st. fst (stat T uri w) = Inr st
               \<and> type st = (if length (split CHR ''/'' (path uri)) > 3 then File else Directory)))
         \<and> (\<forall>st. statCache w (path uri) = Some (Some st) \<longrightarrow>
            fst (stat T uri w) = Inr st
            \<and> type st = (if length (split CHR ''/'' (path uri)) > 3 then File else Directory))
         \<and> (\<forall>content.
              statCache w (path uri) = None \<and> getContent (inst w) = Some content
              \<and> getAttributes content (parseQSysPath T (path uri)) statFields = Inr None
              \<longrightarrow> fst (stat T uri w) = Inl (FileNotFound uri))
         \<and> (path uri = ''/MYLIB/MYFILE'' \<longrightarrow>
              (\<forall>i st. fst (stat T uri (w\<lparr>inst := i\<rparr>)) = Inr st \<longrightarrow> type st = Directory))
         \<and> (path uri = ''/MYLIB/MYFILE/MEMBER1.RPGLE'' \<longrightarrow>
              (\<forall>i st. fst (stat T uri (w\<lparr>inst := i\<rparr>)) = Inr st \<longrightarrow> type st = File))"
proof -
  let ?D = "if length (split CHR ''/'' (path uri)) > 3 then File else Directory"
  have tw: "typed w" using assms by (rule reachable_typed)
  have ti: "typed (w\<lparr>inst := i\<rparr>)" for i
    using tw by (simp add: typed_inst)
  have any: "type st = ?D" if "fst (stat T uri (w\<lparr>inst := i\<rparr>)) = Inr st" for i st
    using ti that by (rule stat_answer_typed)
  have here: "type st = ?D" if "fst (stat T uri w) = Inr st" for st
    using tw that by (rule stat_answer_typed)
  have placeholder: "\<exists>st. fst (stat T uri w) = Inr st \<and> type st = ?D"
    if "statCache w (path uri) = None" and "getContent (inst w) = None"
    using stat_placeholder [OF that, of T] by simp
  have found: "\<exists>st. fst (stat T uri w) = Inr st \<and> type st = ?D"
    if "statCache w (path uri) = None" and "getContent (inst w) = Some content"
      and "getAttributes content (parseQSysPath T (path uri)) statFields = Inr (Some attributes)"
    for content attributes
    using stat_attributes [OF that] by simp
  have hit: "fst (stat T uri w) = Inr st \<and> type st = ?D"
    if "statCache w (path uri) = Some (Some st)" for st
  proof -
    have "fst (stat T uri w) = Inr st"
      using that by (simp add: stat_def Let_def FileStatCache_get_def)
    then show ?thesis using here by simp
  qed
  have absent: "fst (stat T uri w) = Inl (FileNotFound uri)"
    if "statCache w (path uri) = None" and "getContent (inst w) = Some content"
      and "getAttributes content (parseQSysPath T (path uri)) statFields = Inr None"
    for content
    using that by (rule stat_absent)
  have d: "length (split CHR ''/'' ''/MYLIB/MYFILE'') = 3" by simp
  have f: "length (split CHR ''/'' ''/MYLIB/MYFILE/MEMBER1.RPGLE'') = 4" by simp
  have dir: "type st = Directory"
    if "path uri = ''/MYLIB/MYFILE''" and "fst (stat T uri (w\<lparr>inst := i\<rparr>)) = Inr st" for i st
    using any [OF that(2)] that(1) d by simp
  have fil: "type st = File"
    if "path uri = ''/MYLIB/MYFILE/MEMBER1.RPGLE''" and "fst (stat T uri (w\<lparr>inst := i\<rparr>)) = Inr st"
    for i st
    using any [OF that(2)] that(1) f by simp
  show ?thesis
    using any here placeholder found hit absent dir fil by blast
qed

theorem stat_type_by_depth_witness:
  "reachable countingEnv (construct noSession exampleHandler)
   \<and> statCache (construct noSession exampleHandler) ''/MYLIB/MYFILE/MEMBER1.RPGLE'' = None
   \<and> getContent (inst (construct noSession exampleHandler)) = None
   \<and> fst (stat countingEnv (memberUri ''/MYLIB/MYFILE/MEMBER1.RPGLE'')
            (construct noSession exampleHandler))
       = Inr (zeroStat File)
   \<and> fst (stat countingEnv (memberUri ''/MYLIB/MYFILE'') (construct noSession exampleHandler))
       = Inr (zeroStat Directory)
   \<and> getContent (inst ((construct noSession exampleHandler)\<lparr>inst := holdingSession\<rparr>))
       = Some holdingGateway
   \<and> getAttributes holdingGateway ''/MYLIB/MYFILE/MEMBER1.RPGLE'' statFields
       = Inr (Some exampleAttributes)
   \<and> fst (stat countingEnv (memberUri ''/MYLIB/MYFILE/MEMBER1.RPGLE'')
            ((construct noSession exampleHandler)\<lparr>inst := holdingSession\<rparr>))
       = Inr \<lparr>ctime = 8, mtime = 8, size' = 2, type = File, permissions = None\<rparr>
   \<and> fst (stat countingEnv (memberUri ''/MYLIB/MYFILE'')
            ((construct noSession exampleHandler)\<lparr>inst := holdingSession\<rparr>))
       = Inr \<lparr>ctime = 8, mtime = 8, size' = 2, type = Directory, permissions = None\<rparr>
   \<and> fst (stat countingEnv (memberUri ''/MYLIB/MYFILE/MEMBER1.RPGLE'')
            ((construct noSession exampleHandler)\<lparr>inst := exampleSession\<rparr>))
       = Inl (FileNotFound (memberUri ''/MYLIB/MYFILE/MEMBER1.RPGLE''))"
proof -
  let ?w = "construct noSession exampleHandler"
  let ?f = "memberUri ''/MYLIB/MYFILE/MEMBER1.RPGLE''"
  let ?d = "memberUri ''/MYLIB/MYFILE''"
  have r: "reachable countingEnv ?w"
    by (rule reachable.constructed)
  have pf: "path ?f = ''/MYLIB/MYFILE/MEMBER1.RPGLE''" and pd: "path ?d = ''/MYLIB/MYFILE''"
    by (simp_all add: memberUri_def)
  have miss: "statCache ?w p = None" for p
    by (simp add: construct_def)
  have none: "getContent (inst ?w) = None"
    by (simp add: construct_def noSession_def)
  have p: "parse [] = Map.empty" by (simp add: parse_def)
  have perm: "getFilePermission i (memberUri q) = None"
    if "getConfig i = None \<or> getConfig i = Some exampleConfig" for i q
    using that
    by (auto simp: getFilePermission_def parseFSOptions_def memberUri_def p exampleConfig_def)
  have s1: "fst (stat countingEnv ?f ?w) = Inr (zeroStat File)"
    by (simp add: stat_def Let_def FileStatCache_get_def FileStatCache_set_def construct_def
        noSession_def memberUri_def zeroStat_def getFilePermission_def parseFSOptions_def p)
  have s2: "fst (stat countingEnv ?d ?w) = Inr (zeroStat Directory)"
    by (simp add: stat_def Let_def FileStatCache_get_def FileStatCache_set_def construct_def
        noSession_def memberUri_def zeroStat_def getFilePermission_def parseFSOptions_def p)
  from stat_type_by_depth [OF r, of ?f] miss [of "path ?f"] none
  have "\<exists>st. fst (stat countingEnv ?f ?w) = Inr st
          \<and> type st = (if length (split CHR ''/'' (path ?f)) > 3 then File else Directory)"
    by blast
  then have t1: "type (zeroStat File) = File"
    by (simp add: s1 pf)
  have h: "getContent (inst (?w\<lparr>inst := holdingSession\<rparr>)) = Some holdingGateway"
    by (simp add: holdingSession_def)
  have a: "getAttributes holdingGateway q statFields = Inr (Some exampleAttributes)" for q
    by (simp add: holdingGateway_def)
  have s3: "fst (stat countingEnv ?f (?w\<lparr>inst := holdingSession\<rparr>))
      = Inr \<lparr>ctime = 8, mtime = 8, size' = 2, type = File, permissions = None\<rparr>"
    by (simp add: stat_def Let_def FileStatCache_get_def FileStatCache_set_def construct_def
        holdingSession_def holdingGateway_def exampleAttributes_def countingEnv_def
        exampleEnv_def String_def perm pf perform_def)
  have s4: "fst (stat countingEnv ?d (?w\<lparr>inst := holdingSession\<rparr>))
      = Inr \<lparr>ctime = 8, mtime = 8, size' = 2, type = Directory, permissions = None\<rparr>"
    by (simp add: stat_def Let_def FileStatCache_get_def FileStatCache_set_def construct_def
        holdingSession_def holdingGateway_def exampleAttributes_def countingEnv_def
        exampleEnv_def String_def perm pd perform_def)
  from stat_type_by_depth [OF r, of ?f] pf s3
  have t3: "type \<lparr>ctime = 8, mtime = 8, size' = 2, type = File, permissions = None\<rparr> = File"
    by blast
  from stat_type_by_depth [OF r, of ?d] pd s4
  have t4: "type \<lparr>ctime = 8, mtime = 8, size' = 2, type = Directory, permissions = None\<rparr> = Directory"
    by blast
  have s5: "fst (stat countingEnv ?f (?w\<lparr>inst := exampleSession\<rparr>)) = Inl (FileNotFound ?f)"
    by (simp add: stat_def Let_def FileStatCache_get_def FileStatCache_set_def construct_def
        exampleSession_def emptyGateway_def pf perform_def)
  show ?thesis
    using r miss [of "''/MYLIB/MYFILE/MEMBER1.RPGLE''"] none s1 s2 h a s3 s4 s5 t1 t3 t4
    by simp
qed

subsection \<open>Stat with a session: the negative cache\<close>

text \<open>
  C2. Let the path of \<open>uri\<close> be absent from the stat cache, let a content API exist, and
  let its attribute query return nothing for the path. Then \<^verbatim>\<open>stat\<close> fails with
  \<open>FileNotFound\<close>, has asked the gateway once, and leaves the absent marker under the
  path. In any later world that still holds this entry for the path, whatever else has
  changed, \<^verbatim>\<open>stat\<close> on the path fails with \<open>FileNotFound\<close> again and leaves the
  world as it is: no effect is added, so no second attribute query.
\<close>

theorem stat_negative_cache:
  assumes "statCache w (path uri) = None"
    and "getContent (inst w) = Some content"
    and "getAttributes content (parseQSysPath T (path uri)) statFields = Inr None"
  shows "fst (stat T uri w) = Inl (FileNotFound uri)
         \<and> statCache (snd (stat T uri w)) (path uri) = Some None
         \<and> trace (snd (stat T uri w))
             = trace w @ [GetAttributes (parseQSysPath T (path uri)) statFields]
         \<and> (\<forall>w2. statCache w2 (path uri) = statCache (snd (stat T uri w)) (path uri)
                \<longrightarrow> stat T uri w2 = (Inl (FileNotFound uri), w2))"
proof -
  have first: "stat T uri w =
      (Inl (FileNotFound uri),
       (perform (GetAttributes (parseQSysPath T (path uri)) statFields) w)
         \<lparr>statCache := (statCache w)(path uri \<mapsto> None)\<rparr>)"
    using assms
    by (simp add: stat_def Let_def FileStatCache_get_def FileStatCache_set_def perform_def
        statFields_def)
  have again: "stat T uri w2 = (Inl (FileNotFound uri), w2)"
    if "statCache w2 (path uri) = Some None" for w2
    using that by (simp add: stat_def Let_def FileStatCache_get_def)
  show ?thesis
    using again by (simp add: first perform_def)
qed

theorem stat_negative_cache_witness:
  "statCache (construct exampleSession exampleHandler) ''/MYLIB/MYFILE/MEMBER1.RPGLE'' = None
   \<and> getContent (inst (construct exampleSession exampleHandler)) = Some emptyGateway
   \<and> getAttributes emptyGateway ''/MYLIB/MYFILE/MEMBER1.RPGLE'' statFields = Inr None
   \<and> fst (stat exampleEnv (memberUri ''/MYLIB/MYFILE/MEMBER1.RPGLE'')
            (construct exampleSession exampleHandler))
       = Inl (FileNotFound (memberUri ''/MYLIB/MYFILE/MEMBER1.RPGLE''))
   \<and> trace (snd (stat exampleEnv (memberUri ''/MYLIB/MYFILE/MEMBER1.RPGLE'')
            (construct exampleSession exampleHandler)))
       = [GetAttributes ''/MYLIB/MYFILE/MEMBER1.RPGLE'' statFields]"
proof -
  have a: "statCache (construct exampleSession exampleHandler)
             (path (memberUri ''/MYLIB/MYFILE/MEMBER1.RPGLE'')) = None"
    by (simp add: construct_def)
  have b: "getContent (inst (construct exampleSession exampleHandler)) = Some emptyGateway"
    by (simp add: construct_def exampleSession_def)
  have c: "getAttributes emptyGateway
             (parseQSysPath exampleEnv (path (memberUri ''/MYLIB/MYFILE/MEMBER1.RPGLE'')))
             statFields = Inr None"
    by (simp add: emptyGateway_def)
  have t: "trace (construct exampleSession exampleHandler) = []"
    by (simp add: construct_def)
  show ?thesis
    using a b c stat_negative_cache [OF a b c]
    by (simp add: memberUri_def exampleEnv_def t)
qed

subsection \<open>Stat without a session\<close>

text \<open>
  C8. Let the path of \<open>uri\<close> be absent from the stat cache and let there be no content
  API (no live session). Then \<^verbatim>\<open>stat\<close> does not fail: it returns metadata with
  \<open>ctime = 0\<close>, \<open>mtime = 0\<close>, \<open>size = 0\<close>, the type that the depth of the path gives,
  and the permission \<open>Readonly\<close> exactly when the global configuration is in read-only
  mode or the identifier carries \<^verbatim>\<open>readonly=true\<close>. No gateway call is made.
\<close>

theorem stat_no_session:
  assumes "statCache w (path uri) = None" and "getContent (inst w) = None"
  shows "fst (stat T uri w) =
           Inr \<lparr>ctime = 0, mtime = 0, size' = 0,
                type = (if length (split CHR ''/'' (path uri)) > 3 then File else Directory),
                permissions =
                  (if (case getConfig (inst w) of None \<Rightarrow> False | Some c \<Rightarrow> readOnlyMode c)
                      \<or> readonly (parseFSOptions uri)
                   then Some Readonly else None)\<rparr>
         \<and> trace (snd (stat T uri w)) = trace w"
  using assms
  by (simp add: stat_def Let_def FileStatCache_get_def FileStatCache_set_def
      getFilePermission_def)

theorem stat_no_session_witness:
  "statCache (construct noSession exampleHandler) ''/MYLIB/MYFILE'' = None
   \<and> getContent (inst (construct noSession exampleHandler)) = None
   \<and> fst (stat exampleEnv ((memberUri ''/MYLIB/MYFILE'')\<lparr>query := ''readonly=true''\<rparr>)
            (construct noSession exampleHandler))
       = Inr \<lparr>ctime = 0, mtime = 0, size' = 0, type = Directory, permissions = Some Readonly\<rparr>"
proof -
  have a: "statCache (construct noSession exampleHandler)
             (path ((memberUri ''/MYLIB/MYFILE'')\<lparr>query := ''readonly=true''\<rparr>)) = None"
    by (simp add: construct_def)
  have b: "getContent (inst (construct noSession exampleHandler)) = None"
    by (simp add: construct_def noSession_def)
  have v: "valuesOf ''readonly'' ''readonly=true'' = [''true'']"
    by (simp add: valuesOf_def pairs_def keyValue_def decode_def)
  have r: "readonly (parseFSOptions ((memberUri ''/MYLIB/MYFILE'')\<lparr>query := ''readonly=true''\<rparr>))"
    by (simp add: parseFSOptions_def parse_readonly v)
  show ?thesis
    using a b r stat_no_session [OF a b, of exampleEnv]
    by (simp add: memberUri_def)
qed

text \<open>
  C9. The placeholder of a stat without a session is stored in the cache under the path.
  In any later world that still holds this entry for the path, a live session included,
  \<^verbatim>\<open>stat\<close> on the path returns the same zeroed metadata and leaves the world as it is:
  no effect is added, so no attribute query.
\<close>

theorem stat_placeholder_cached:
  assumes "statCache w (path uri) = None" and "getContent (inst w) = None"
  shows "(\<exists>st. fst (stat T uri w) = Inr st
            \<and> ctime st = 0 \<and> mtime st = 0 \<and> size' st = 0
            \<and> statCache (snd (stat T uri w)) (path uri) = Some (Some st))
         \<and> (\<forall>w2. statCache w2 (path uri) = statCache (snd (stat T uri w)) (path uri)
                \<longrightarrow> stat T uri w2 = (fst (stat T uri w), w2))"
proof -
  define st where "st = \<lparr>ctime = 0, mtime = 0, size' = 0,
      type = (if length (split CHR ''/'' (path uri)) > 3 then File else Directory),
      permissions = getFilePermission (inst w) uri\<rparr>"
  have first: "stat T uri w = (Inr st, w\<lparr>statCache := (statCache w)(path uri \<mapsto> Some st)\<rparr>)"
    using assms
    by (simp add: stat_def Let_def FileStatCache_get_def FileStatCache_set_def st_def)
  have again: "stat T uri w2 = (Inr st, w2)"
    if "statCache w2 (path uri) = Some (Some st)" for w2
    using that by (simp add: stat_def Let_def FileStatCache_get_def)
  have z: "ctime st = 0 \<and> mtime st = 0 \<and> size' st = 0"
    by (simp add: st_def)
  show ?thesis
    using again z by (simp add: first)
qed

theorem stat_placeholder_cached_witness:
  "statCache (construct noSession exampleHandler) ''/MYLIB/MYFILE'' = None
   \<and> getContent (inst (construct noSession exampleHandler)) = None
   \<and> getContent (inst ((snd (stat exampleEnv (memberUri ''/MYLIB/MYFILE'')
        (construct noSession exampleHandler)))\<lparr>inst := exampleSession\<rparr>)) = Some emptyGateway
   \<and> stat exampleEnv (memberUri ''/MYLIB/MYFILE'')
        ((snd (stat exampleEnv (memberUri ''/MYLIB/MYFILE'')
           (construct noSession exampleHandler)))\<lparr>inst := exampleSession\<rparr>)
      = (fst (stat exampleEnv (memberUri ''/MYLIB/MYFILE'') (construct noSession exampleHandler)),
         (snd (stat exampleEnv (memberUri ''/MYLIB/MYFILE'')
           (construct noSession exampleHandler)))\<lparr>inst := exampleSession\<rparr>)"
proof -
  have a: "statCache (construct noSession exampleHandler)
             (path (memberUri ''/MYLIB/MYFILE'')) = None"
    by (simp add: construct_def)
  have b: "getContent (inst (construct noSession exampleHandler)) = None"
    by (simp add: construct_def noSession_def)
  have c: "getContent exampleSession = Some emptyGateway"
    by (simp add: exampleSession_def)
  have p: "path (memberUri ''/MYLIB/MYFILE'') = ''/MYLIB/MYFILE''"
    by (simp add: memberUri_def)
  from stat_placeholder_cached [OF a b, of exampleEnv]
  have "\<forall>w2. statCache w2 (path (memberUri ''/MYLIB/MYFILE''))
               = statCache (snd (stat exampleEnv (memberUri ''/MYLIB/MYFILE'')
                   (construct noSession exampleHandler))) (path (memberUri ''/MYLIB/MYFILE''))
          \<longrightarrow> stat exampleEnv (memberUri ''/MYLIB/MYFILE'') w2
               = (fst (stat exampleEnv (memberUri ''/MYLIB/MYFILE'')
                    (construct noSession exampleHandler)), w2)"
    by blast
  then have "stat exampleEnv (memberUri ''/MYLIB/MYFILE'')
        ((snd (stat exampleEnv (memberUri ''/MYLIB/MYFILE'')
           (construct noSession exampleHandler)))\<lparr>inst := exampleSession\<rparr>)
      = (fst (stat exampleEnv (memberUri ''/MYLIB/MYFILE'') (construct noSession exampleHandler)),
         (snd (stat exampleEnv (memberUri ''/MYLIB/MYFILE'')
           (construct noSession exampleHandler)))\<lparr>inst := exampleSession\<rparr>)"
    by simp
  then show ?thesis using a b c p by simp
qed

subsection \<open>Writing\<close>

lemma writeFile_cache:
  "statCache (snd (writeFile T uri content options w)) = (statCache w)(path uri := None)"
  by (simp add: writeFile_def Let_def FileStatCache_clear_def perform_def
      split: option.splits sum.splits)

lemma stat_miss_fst:
  assumes "statCache w1 (path uri) = None" and "statCache w2 (path uri) = None"
    and "inst w1 = inst w2"
  shows "fst (stat T uri w1) = fst (stat T uri w2)"
  using assms
  by (simp add: stat_def Let_def FileStatCache_get_def split: option.splits sum.splits)

lemma writeFile_inst: "inst (snd (writeFile T uri content options w)) = inst w"
  by (simp add: writeFile_def Let_def perform_def split: option.splits sum.splits)

text \<open>
  C3. \<^verbatim>\<open>writeFile\<close> clears the cache entry of the path first, so in every outcome, success,
  a failure of the gateway or of the path parser, and the failure \<open>notConnected\<close> that it
  raises when the connection or the content API is missing, the world it leaves holds
  no entry for the path. A stat of the path that follows, under any session, gives what
  it gives whatever the cache held before the write: nothing cached before the write is
  returned.
\<close>

theorem writeFile_clears_first:
  "statCache (snd (writeFile T uri content options w)) (path uri) = None
   \<and> (\<not> live (inst w) \<longrightarrow>
        fst (writeFile T uri content options w) = Inl notConnected
        \<and> statCache (snd (writeFile T uri content options w)) (path uri) = None)
   \<and> (\<forall>cache i.
        fst (stat T uri ((snd (writeFile T uri content options (w\<lparr>statCache := cache\<rparr>)))\<lparr>inst := i\<rparr>))
        = fst (stat T uri ((snd (writeFile T uri content options w))\<lparr>inst := i\<rparr>)))"
proof (intro conjI allI impI)
  show c: "statCache (snd (writeFile T uri content options w)) (path uri) = None"
    by (simp add: writeFile_cache)
  show "statCache (snd (writeFile T uri content options w)) (path uri) = None"
    by (rule c)
next
  assume "\<not> live (inst w)"
  then show "fst (writeFile T uri content options w) = Inl notConnected"
    by (auto simp: live_def writeFile_def Let_def split: option.splits)
next
  fix cache i
  show "fst (stat T uri ((snd (writeFile T uri content options (w\<lparr>statCache := cache\<rparr>)))\<lparr>inst := i\<rparr>))
        = fst (stat T uri ((snd (writeFile T uri content options w))\<lparr>inst := i\<rparr>))"
    by (rule stat_miss_fst) (simp_all add: writeFile_cache)
qed

theorem writeFile_clears_first_witness:
  "\<not> live (inst ((construct noSession exampleHandler)
        \<lparr>statCache := [''/MYLIB/MYFILE/MEMBER1.RPGLE'' \<mapsto> Some (zeroStat File)]\<rparr>))
   \<and> fst (writeFile exampleEnv (memberUri ''/MYLIB/MYFILE/MEMBER1.RPGLE'') ''X''
        \<lparr>overwrite = True, create = True\<rparr>
        ((construct noSession exampleHandler)
           \<lparr>statCache := [''/MYLIB/MYFILE/MEMBER1.RPGLE'' \<mapsto> Some (zeroStat File)]\<rparr>))
      = Inl notConnected
   \<and> statCache (snd (writeFile exampleEnv (memberUri ''/MYLIB/MYFILE/MEMBER1.RPGLE'') ''X''
        \<lparr>overwrite = True, create = True\<rparr>
        ((construct noSession exampleHandler)
           \<lparr>statCache := [''/MYLIB/MYFILE/MEMBER1.RPGLE'' \<mapsto> Some (zeroStat File)]\<rparr>)))
        ''/MYLIB/MYFILE/MEMBER1.RPGLE'' = None"
proof -
  have n: "\<not> live (inst ((construct noSession exampleHandler)
        \<lparr>statCache := [''/MYLIB/MYFILE/MEMBER1.RPGLE'' \<mapsto> Some (zeroStat File)]\<rparr>))"
    by (simp add: live_def construct_def noSession_def)
  have p: "path (memberUri ''/MYLIB/MYFILE/MEMBER1.RPGLE'') = ''/MYLIB/MYFILE/MEMBER1.RPGLE''"
    by (simp add: memberUri_def)
  show ?thesis
    using n p
      writeFile_clears_first [of exampleEnv "memberUri ''/MYLIB/MYFILE/MEMBER1.RPGLE''" "''X''"
        "\<lparr>overwrite = True, create = True\<rparr>"
        "(construct noSession exampleHandler)
           \<lparr>statCache := [''/MYLIB/MYFILE/MEMBER1.RPGLE'' \<mapsto> Some (zeroStat File)]\<rparr>"]
    by simp
qed

text \<open>
  C10. \<^verbatim>\<open>writeFile\<close> never reads its options: for any two options records the result and
  the world it leaves, cache, effects and all, are the same.
\<close>

theorem writeFile_ignores_options:
  "writeFile T uri content options1 w = writeFile T uri content options2 w"
  by (simp add: writeFile_def)

theorem writeFile_ignores_options_witness:
  "writeFile exampleEnv (memberUri ''/MYLIB/MYFILE/MEMBER1.RPGLE'') ''X''
     \<lparr>overwrite = True, create = True\<rparr> (construct exampleSession exampleHandler)
   = writeFile exampleEnv (memberUri ''/MYLIB/MYFILE/MEMBER1.RPGLE'') ''X''
     \<lparr>overwrite = False, create = False\<rparr> (construct exampleSession exampleHandler)
   \<and> trace (snd (writeFile exampleEnv (memberUri ''/MYLIB/MYFILE/MEMBER1.RPGLE'') ''X''
     \<lparr>overwrite = False, create = False\<rparr> (construct exampleSession exampleHandler)))
     = [UploadMemberContent None ''MYLIB'' ''MYFILE'' ''MEMBER1'' ''X'']"
proof -
  have "trace (snd (writeFile exampleEnv (memberUri ''/MYLIB/MYFILE/MEMBER1.RPGLE'') ''X''
     \<lparr>overwrite = False, create = False\<rparr> (construct exampleSession exampleHandler)))
     = [UploadMemberContent None ''MYLIB'' ''MYFILE'' ''MEMBER1'' ''X'']"
    by (simp add: writeFile_def Let_def construct_def exampleSession_def exampleConnection_def
        exampleMember_def perform_def)
  then show ?thesis
    using writeFile_ignores_options [of exampleEnv "memberUri ''/MYLIB/MYFILE/MEMBER1.RPGLE''"
        "''X''" "\<lparr>overwrite = True, create = True\<rparr>" "construct exampleSession exampleHandler"
        "\<lparr>overwrite = False, create = False\<rparr>"]
    by simp
qed

subsection \<open>Renaming\<close>

text \<open>
  C7. \<^verbatim>\<open>rename\<close> succeeds and clears the cache entries of the two paths. It changes
  nothing else of the provider or of the session, and its only effect is the line it
  writes to the console: no gateway call, so no remote rename. With a content API to ask,
  a stat of either path that follows therefore asks the gateway for the attributes
  afresh.
\<close>

theorem rename_clears_both:
  "fst (rename oldUri newUri options w) = Inr ()
   \<and> statCache (snd (rename oldUri newUri options w))
       = (statCache w)(path oldUri := None, path newUri := None)
   \<and> inst (snd (rename oldUri newUri options w)) = inst w
   \<and> sourceDateHandler (snd (rename oldUri newUri options w)) = sourceDateHandler w
   \<and> extendedMemberSupport (snd (rename oldUri newUri options w)) = extendedMemberSupport w
   \<and> trace (snd (rename oldUri newUri options w))
       = trace w @ [ConsoleLog oldUri newUri (overwrite options)]
   \<and> (\<forall>uri content. path uri \<in> {path oldUri, path newUri}
          \<and> getContent (inst w) = Some content \<longrightarrow>
        trace (snd (stat T uri (snd (rename oldUri newUri options w))))
        = trace (snd (rename oldUri newUri options w))
          @ [GetAttributes (parseQSysPath T (path uri)) statFields])"
proof -
  have r: "rename oldUri newUri options w =
      (Inr (), w\<lparr>statCache := (statCache w)(path oldUri := None, path newUri := None),
                 trace := trace w @ [ConsoleLog oldUri newUri (overwrite options)]\<rparr>)"
    by (simp add: rename_def Let_def perform_def FileStatCache_clear_def)
  have s: "trace (snd (stat T uri w')) = trace w' @ [GetAttributes (parseQSysPath T (path uri)) statFields]"
    if "statCache w' (path uri) = None" and "getContent (inst w') = Some content"
    for w' uri content
    using that
    by (simp add: stat_def Let_def FileStatCache_get_def perform_def statFields_def
        split: sum.splits option.splits)
  have after: "trace (snd (stat T uri (snd (rename oldUri newUri options w))))
        = trace (snd (rename oldUri newUri options w))
          @ [GetAttributes (parseQSysPath T (path uri)) statFields]"
    if "path uri \<in> {path oldUri, path newUri}" and "getContent (inst w) = Some content"
    for uri content
  proof (rule s)
    show "statCache (snd (rename oldUri newUri options w)) (path uri) = None"
      using that(1) by (auto simp: r)
    show "getContent (inst (snd (rename oldUri newUri options w))) = Some content"
      using that(2) by (simp add: r)
  qed
  show ?thesis
    using after by (simp add: r)
qed

theorem rename_clears_both_witness:
  "statCache (snd (rename (memberUri ''/MYLIB/MYFILE/A.RPGLE'') (memberUri ''/MYLIB/MYFILE/B.RPGLE'')
        \<lparr>overwrite = False\<rparr>
        ((construct exampleSession exampleHandler)
           \<lparr>statCache := [''/MYLIB/MYFILE/A.RPGLE'' \<mapsto> Some (zeroStat File)]\<rparr>)))
     = Map.empty
   \<and> path (memberUri ''/MYLIB/MYFILE/A.RPGLE'')
       \<in> {path (memberUri ''/MYLIB/MYFILE/A.RPGLE''), path (memberUri ''/MYLIB/MYFILE/B.RPGLE'')}
   \<and> getContent (inst ((construct exampleSession exampleHandler)
           \<lparr>statCache := [''/MYLIB/MYFILE/A.RPGLE'' \<mapsto> Some (zeroStat File)]\<rparr>)) = Some emptyGateway
   \<and> trace (snd (stat exampleEnv (memberUri ''/MYLIB/MYFILE/A.RPGLE'')
       (snd (rename (memberUri ''/MYLIB/MYFILE/A.RPGLE'') (memberUri ''/MYLIB/MYFILE/B.RPGLE'')
        \<lparr>overwrite = False\<rparr>
        ((construct exampleSession exampleHandler)
           \<lparr>statCache := [''/MYLIB/MYFILE/A.RPGLE'' \<mapsto> Some (zeroStat File)]\<rparr>)))))
     = [ConsoleLog (memberUri ''/MYLIB/MYFILE/A.RPGLE'') (memberUri ''/MYLIB/MYFILE/B.RPGLE'') False,
        GetAttributes ''/MYLIB/MYFILE/A.RPGLE'' statFields]"
proof -
  let ?w = "(construct exampleSession exampleHandler)
           \<lparr>statCache := [''/MYLIB/MYFILE/A.RPGLE'' \<mapsto> Some (zeroStat File)]\<rparr>"
  have g: "getContent (inst ?w) = Some emptyGateway"
    by (simp add: construct_def exampleSession_def)
  have t: "trace ?w = []"
    by (simp add: construct_def)
  have p: "path (memberUri ''/MYLIB/MYFILE/A.RPGLE'') = ''/MYLIB/MYFILE/A.RPGLE''"
       "path (memberUri ''/MYLIB/MYFILE/B.RPGLE'') = ''/MYLIB/MYFILE/B.RPGLE''"
    by (simp_all add: memberUri_def)
  have q: "parseQSysPath exampleEnv = (\<lambda>p. p)"
    by (simp add: exampleEnv_def)
  note rn = rename_clears_both [of "memberUri ''/MYLIB/MYFILE/A.RPGLE''"
      "memberUri ''/MYLIB/MYFILE/B.RPGLE''" "\<lparr>overwrite = False\<rparr>" ?w exampleEnv]
  from rn have "trace (snd (stat exampleEnv (memberUri ''/MYLIB/MYFILE/A.RPGLE'')
       (snd (rename (memberUri ''/MYLIB/MYFILE/A.RPGLE'') (memberUri ''/MYLIB/MYFILE/B.RPGLE'')
        \<lparr>overwrite = False\<rparr> ?w))))
     = trace (snd (rename (memberUri ''/MYLIB/MYFILE/A.RPGLE'') (memberUri ''/MYLIB/MYFILE/B.RPGLE'')
        \<lparr>overwrite = False\<rparr> ?w))
       @ [GetAttributes (parseQSysPath exampleEnv (path (memberUri ''/MYLIB/MYFILE/A.RPGLE''))) statFields]"
    using g by blast
  moreover from rn have "statCache (snd (rename (memberUri ''/MYLIB/MYFILE/A.RPGLE'')
        (memberUri ''/MYLIB/MYFILE/B.RPGLE'') \<lparr>overwrite = False\<rparr> ?w))
     = (statCache ?w)(path (memberUri ''/MYLIB/MYFILE/A.RPGLE'') := None,
                      path (memberUri ''/MYLIB/MYFILE/B.RPGLE'') := None)"
    by blast
  moreover from rn have "trace (snd (rename (memberUri ''/MYLIB/MYFILE/A.RPGLE'')
        (memberUri ''/MYLIB/MYFILE/B.RPGLE'') \<lparr>overwrite = False\<rparr> ?w))
     = trace ?w @ [ConsoleLog (memberUri ''/MYLIB/MYFILE/A.RPGLE'')
         (memberUri ''/MYLIB/MYFILE/B.RPGLE'') (overwrite \<lparr>overwrite = False\<rparr>)]"
    by blast
  ultimately show ?thesis
    using g t by (simp add: p q)
qed

subsection \<open>Reading\<close>









lemma readFile_live:
  assumes "getConnection (inst w) = Some connection" and "getContent (inst w) = Some contentApi"
  shows "readFile T uri retrying w =
     (case parserMemberPath connection (path uri) of
        Inl e \<Rightarrow> (Inl e, w)
      | Inr m \<Rightarrow>
          if extendedMemberSupport w
          then (case downloadMemberContentWithDates T (inst w) (asp m) (library m) (file' m) (name m) of
                  Inl e \<Rightarrow> Inl e
                | Inr (Some text) \<Rightarrow> Inr text
                | Inr None \<Rightarrow> Inl (couldntRead T uri),
                perform (DownloadMemberContentWithDates (asp m) (library m) (file' m) (name m)) w)
          else (case downloadMemberContent contentApi (asp m) (library m) (file' m) (name m) of
                  Inl e \<Rightarrow> Inl e
                | Inr (Some text) \<Rightarrow> Inr text
                | Inr None \<Rightarrow> Inl (couldntRead T uri),
                perform (DownloadMemberContent (asp m) (library m) (file' m) (name m)) w))"
  using assms
  by (subst readFile.simps) (simp add: Let_def split: sum.splits option.splits)






subsection \<open>Source dates without SQL\<close>

lemma updateMemberSupport_no_sql:
  assumes "getConnection (inst w) = Some connection" and "config connection = Some cfg"
    and "enableSourceDates cfg" and "\<not> sqlRunnerAvailable connection"
  shows "updateMemberSupport w =
           w\<lparr>extendedMemberSupport := False,
              trace := trace w @ [ShowErrorMessage sqlMissingMessage],
              sourceDateHandler := (sourceDateHandler w)\<lparr>enabled := False\<rparr>\<rparr>"
  using assms by (simp add: updateMemberSupport_def Let_def perform_def setEnabled_def)

lemma writeFile_plain:
  assumes "\<not> extendedMemberSupport w"
  shows "withDates (trace (snd (writeFile T uri content options w))) = withDates (trace w)
         \<and> notices (trace (snd (writeFile T uri content options w))) = notices (trace w)"
  using assms
  by (simp add: writeFile_def Let_def perform_def withDates_def notices_def
      split: option.splits sum.splits)

lemma readFile_plain:
  assumes "\<not> extendedMemberSupport w" and "live (inst w)"
  shows "withDates (trace (snd (readFile T uri retrying w))) = withDates (trace w)
         \<and> notices (trace (snd (readFile T uri retrying w))) = notices (trace w)"
proof -
  from assms(2) obtain connection contentApi where
    "getConnection (inst w) = Some connection" "getContent (inst w) = Some contentApi"
    by (auto simp: live_def)
  then show ?thesis
    using assms(1)
    by (simp add: readFile_live perform_def withDates_def notices_def split: sum.splits)
qed

lemma stat_notices:
  "withDates (trace (snd (stat T uri w))) = withDates (trace w)
   \<and> notices (trace (snd (stat T uri w))) = notices (trace w)"
  by (simp add: stat_def Let_def perform_def withDates_def notices_def FileStatCache_get_def
      split: option.splits sum.splits)

text \<open>
  C5, as the code has it. When the support state is recomputed with a connection whose
  configuration asks for source dates and that cannot run SQL, the overlay stays
  disabled: \<open>extendedMemberSupport\<close> and the handler's \<open>enabled\<close> are false afterwards.
  The recomputation returns (it has no failing branch), leaves the session and the
  cache alone, and raises exactly one notice, through \<^verbatim>\<open>showErrorMessage\<close>: an
  error-level notice, not a warning-level one. The operations that follow raise no
  notice and call no with-dates function: \<^verbatim>\<open>stat\<close> and \<^verbatim>\<open>writeFile\<close> always, \<^verbatim>\<open>readFile\<close>
  with a live session, where it downloads with the plain function.
\<close>

theorem no_sql_stays_disabled:
  assumes "getConnection (inst w) = Some connection" and "config connection = Some cfg"
    and "enableSourceDates cfg" and "\<not> sqlRunnerAvailable connection"
  shows "extendedMemberSupport (updateMemberSupport w) = False
         \<and> enabled (sourceDateHandler (updateMemberSupport w)) = False
         \<and> trace (updateMemberSupport w) = trace w @ [ShowErrorMessage sqlMissingMessage]
         \<and> inst (updateMemberSupport w) = inst w
         \<and> statCache (updateMemberSupport w) = statCache w
         \<and> withDates (trace (snd (stat T uri (updateMemberSupport w)))) = withDates (trace w)
         \<and> notices (trace (snd (stat T uri (updateMemberSupport w))))
             = notices (trace w) @ [ShowErrorMessage sqlMissingMessage]
         \<and> withDates (trace (snd (writeFile T uri content options (updateMemberSupport w))))
             = withDates (trace w)
         \<and> notices (trace (snd (writeFile T uri content options (updateMemberSupport w))))
             = notices (trace w) @ [ShowErrorMessage sqlMissingMessage]
         \<and> (live (inst w) \<longrightarrow>
              withDates (trace (snd (readFile T uri retrying (updateMemberSupport w))))
                = withDates (trace w)
              \<and> notices (trace (snd (readFile T uri retrying (updateMemberSupport w))))
                = notices (trace w) @ [ShowErrorMessage sqlMissingMessage])
         \<and> (\<forall>contentApi m. getContent (inst w) = Some contentApi
                \<and> parserMemberPath connection (path uri) = Inr m \<longrightarrow>
              trace (snd (readFile T uri retrying (updateMemberSupport w)))
                = trace (updateMemberSupport w)
                  @ [DownloadMemberContent (asp m) (library m) (file' m) (name m)])"
proof -
  let ?w = "updateMemberSupport w"
  note u = updateMemberSupport_no_sql [OF assms]
  have off: "\<not> extendedMemberSupport ?w" by (simp add: u)
  have i: "inst ?w = inst w" by (simp add: u)
  have wd: "withDates (trace ?w) = withDates (trace w)"
    by (simp add: u withDates_def)
  have nt: "notices (trace ?w) = notices (trace w) @ [ShowErrorMessage sqlMissingMessage]"
    by (simp add: u notices_def)
  have st: "withDates (trace (snd (stat T uri ?w))) = withDates (trace w)
      \<and> notices (trace (snd (stat T uri ?w)))
          = notices (trace w) @ [ShowErrorMessage sqlMissingMessage]"
    using stat_notices [of T uri ?w] by (simp add: wd nt)
  have wr: "withDates (trace (snd (writeFile T uri content options ?w))) = withDates (trace w)
      \<and> notices (trace (snd (writeFile T uri content options ?w)))
          = notices (trace w) @ [ShowErrorMessage sqlMissingMessage]"
    using writeFile_plain [OF off, of T uri content options] by (simp add: wd nt)
  have rd: "withDates (trace (snd (readFile T uri retrying ?w))) = withDates (trace w)
      \<and> notices (trace (snd (readFile T uri retrying ?w)))
          = notices (trace w) @ [ShowErrorMessage sqlMissingMessage]"
    if "live (inst w)"
    using readFile_plain [OF off, of T uri retrying] that by (simp add: i wd nt)
  have pl: "trace (snd (readFile T uri retrying ?w))
      = trace ?w @ [DownloadMemberContent (asp m) (library m) (file' m) (name m)]"
    if "getContent (inst w) = Some contentApi" and "parserMemberPath connection (path uri) = Inr m"
    for contentApi m
  proof -
    have "getConnection (inst ?w) = Some connection" "getContent (inst ?w) = Some contentApi"
      using assms(1) that(1) by (simp_all add: i)
    then show ?thesis
      using off that(2) by (simp add: readFile_live perform_def split: sum.splits)
  qed
  have basics: "extendedMemberSupport ?w = False
      \<and> enabled (sourceDateHandler ?w) = False
      \<and> trace ?w = trace w @ [ShowErrorMessage sqlMissingMessage]
      \<and> inst ?w = inst w \<and> statCache ?w = statCache w"
    by (simp add: u)
  show ?thesis
    using basics st wr rd pl by blast
qed

theorem no_sql_stays_disabled_witness:
  "getConnection (inst (construct exampleSession exampleHandler)) = Some exampleConnection
   \<and> config exampleConnection = Some exampleConfig
   \<and> enableSourceDates exampleConfig
   \<and> \<not> sqlRunnerAvailable exampleConnection
   \<and> live (inst (construct exampleSession exampleHandler))
   \<and> extendedMemberSupport (updateMemberSupport (construct exampleSession exampleHandler)) = False
   \<and> trace (updateMemberSupport (construct exampleSession exampleHandler))
       = [ShowErrorMessage sqlMissingMessage]
   \<and> trace (snd (readFile exampleEnv (memberUri ''/MYLIB/MYFILE/MEMBER1.RPGLE'') False
        (updateMemberSupport (construct exampleSession exampleHandler))))
       = [ShowErrorMessage sqlMissingMessage,
          DownloadMemberContent None ''MYLIB'' ''MYFILE'' ''MEMBER1'']"
proof -
  let ?v = "construct exampleSession exampleHandler"
  let ?u = "memberUri ''/MYLIB/MYFILE/MEMBER1.RPGLE''"
  have a: "getConnection (inst ?v) = Some exampleConnection"
    by (simp add: construct_def exampleSession_def)
  have b: "config exampleConnection = Some exampleConfig"
    by (simp add: exampleConnection_def)
  have c: "enableSourceDates exampleConfig"
    by (simp add: exampleConfig_def)
  have d: "\<not> sqlRunnerAvailable exampleConnection"
    by (simp add: exampleConnection_def)
  have l: "live (inst ?v)"
    by (simp add: live_def construct_def exampleSession_def)
  have g: "getContent (inst ?v) = Some emptyGateway
      \<and> parserMemberPath exampleConnection (path ?u) = Inr exampleMember"
    by (simp add: construct_def exampleSession_def exampleConnection_def)
  have t: "trace ?v = []" by (simp add: construct_def)
  note r = no_sql_stays_disabled [OF a b c d, of exampleEnv ?u]
  have one: "extendedMemberSupport (updateMemberSupport ?v) = False
      \<and> trace (updateMemberSupport ?v) = trace ?v @ [ShowErrorMessage sqlMissingMessage]"
    using r by blast
  have two: "trace (snd (readFile exampleEnv ?u False (updateMemberSupport ?v)))
      = trace (updateMemberSupport ?v)
        @ [DownloadMemberContent (asp exampleMember) (library exampleMember)
             (file' exampleMember) (name exampleMember)]"
    using r g by blast
  show ?thesis
    using a b c d l one two by (simp add: t exampleMember_def)
qed

text \<open>
  The claim C5 as the spec words it asks for a warning-level notice. In the world built
  for a session that asks for source dates and cannot run SQL, the recomputation raises
  one notice and it is not a warning: the list of warnings raised is empty.
\<close>

theorem no_sql_warning_counterexample:
  "getConnection (inst (construct exampleSession exampleHandler)) = Some exampleConnection
   \<and> config exampleConnection = Some exampleConfig
   \<and> enableSourceDates exampleConfig
   \<and> \<not> sqlRunnerAvailable exampleConnection
   \<and> trace (updateMemberSupport (construct exampleSession exampleHandler))
     = [ShowErrorMessage sqlMissingMessage]
   \<and> warnings (trace (updateMemberSupport (construct exampleSession exampleHandler))) = []"
  by (simp add: updateMemberSupport_def Let_def perform_def construct_def exampleSession_def
      exampleConnection_def exampleConfig_def warnings_def)

end
